theory Spec2Isabelle
  imports Complex_Main "HOL-Library.Word" "HOL-Library.AList"
begin

section \<open>JavaScript values\<close>

text \<open>
  Values held by the client at run time. A decoded JSON body never holds
  \<open>JUndefined\<close>; reading a property an object does not have yields it.
  JSON numbers are finite, so they are real numbers here. An object is the
  list of its properties in insertion order.
\<close>

datatype jsval =
    JUndefined
  | JNull
  | JBool bool
  | JNum real
  | JStr string
  | JArr "jsval list"
  | JObj "(string \<times> jsval) list"

type_synonym jsobject = "(string \<times> jsval) list"

text \<open>The truthiness test of \<open>if (v)\<close>, \<open>v && ...\<close> and \<open>v || ...\<close>.\<close>

fun truthy :: "jsval \<Rightarrow> bool" where
  "truthy JUndefined = False"
| "truthy JNull = False"
| "truthy (JBool b) = b"
| "truthy (JNum n) = (n \<noteq> 0)"
| "truthy (JStr s) = (s \<noteq> [])"
| "truthy (JArr xs) = True"
| "truthy (JObj ps) = True"

text \<open>Property access \<open>obj.k\<close> on an object.\<close>

definition getprop :: "jsobject \<Rightarrow> string \<Rightarrow> jsval" where
  "getprop obj k = (case map_of obj k of None \<Rightarrow> JUndefined | Some v \<Rightarrow> v)"

text \<open>
  \<open>x || fallback\<close> where \<open>x\<close> is a string or missing: the empty string and
  \<open>undefined\<close> are the falsy cases.
\<close>

fun or_else :: "string option \<Rightarrow> string \<Rightarrow> string" where
  "or_else None fb = fb"
| "or_else (Some s) fb = (if s = [] then fb else s)"

text \<open>
  The credential is typed by the user and trimmed by the gate, so it is kept
  as the sequence of UTF-16 code units a JavaScript string is.
\<close>

type_synonym utf16 = "16 word list"

section \<open>HTTP exchange\<close>

text \<open>
  What a client operation sends: the endpoint path below the API base URL,
  the credential header when the operation attaches one, and the fields of
  the JSON body. Every POST carries \<open>Content-Type: application/json\<close>.
\<close>

record request =
  endpoint :: string
  api_key :: "utf16 option"
  payload :: "(string \<times> string) list"

text \<open>
  The decoded body of a response as the client reads it. The backend answers
  every endpoint with a JSON object; \<open>detail\<close> is its property of that name
  (a string, set on failures; \<open>None\<close> when the object has none) and
  \<open>result\<close> is the object read at the result interface of the operation.
\<close>

record 'r decoded =
  detail :: "string option"
  result :: 'r

text \<open>
  A response: its status, and what \<open>res.json()\<close> settles to; \<open>Inl m\<close> is a
  rejection with an error whose message is \<open>m\<close>.
\<close>

record 'r http_response =
  status :: nat
  json :: "string + 'r decoded"

text \<open>\<open>res.ok\<close>: the status is in the range 200 to 299.\<close>

definition ok :: "'r http_response \<Rightarrow> bool" where
  "ok res \<longleftrightarrow> 200 \<le> status res \<and> status res \<le> 299"

text \<open>\<open>fetch\<close> either rejects (network failure, message \<open>m\<close>) or resolves.\<close>

datatype 'r fetch_result = NetworkError string | Response "'r http_response"

text \<open>
  An operation of the client settles to \<open>Inr r\<close> (the returned value) or
  \<open>Inl m\<close> (a thrown error with message \<open>m\<close>).
\<close>

type_synonym 'r outcome = "string + 'r"

definition res_json :: "'r http_response \<Rightarrow> 'r outcome" where
  "res_json res = (case json res of Inl m \<Rightarrow> Inl m | Inr b \<Rightarrow> Inr (result b))"

section \<open>API client with a mandatory key (api.ts, key first)\<close>

definition api1_analyzeDomain_request :: "utf16 \<Rightarrow> string \<Rightarrow> request" where
  "api1_analyzeDomain_request apiKey domain =
     \<lparr>endpoint = ''/domain'', api_key = Some apiKey, payload = [(''domain'', domain)]\<rparr>"

definition api1_analyzeDomain :: "'r fetch_result \<Rightarrow> 'r outcome" where
  "api1_analyzeDomain f =
     (case f of
        NetworkError m \<Rightarrow> Inl m
      | Response res \<Rightarrow>
          if \<not> ok res then
            (if status res = 401 then Inl ''Invalid API Key''
             else if status res = 429 then Inl ''Quota Exceeded''
             else Inl ''Analysis failed'')
          else res_json res)"

definition api1_researchKeywords_request :: "utf16 \<Rightarrow> string \<Rightarrow> request" where
  "api1_researchKeywords_request apiKey keyword =
     \<lparr>endpoint = ''/keywords'', api_key = Some apiKey, payload = [(''keyword'', keyword)]\<rparr>"

text \<open>
  The returned object is \<open>{...data, difficulty: data.keyword_difficulty}\<close>:
  the properties of \<open>data\<close> in order, with \<open>difficulty\<close> overwritten in
  place when \<open>data\<close> has it and appended otherwise.
\<close>

definition api1_researchKeywords :: "jsobject fetch_result \<Rightarrow> jsobject outcome" where
  "api1_researchKeywords f =
     (case f of
        NetworkError m \<Rightarrow> Inl m
      | Response res \<Rightarrow>
          if \<not> ok res then Inl ''Research failed''
          else (case res_json res of
                  Inl m \<Rightarrow> Inl m
                | Inr data \<Rightarrow>
                    Inr (AList.update ''difficulty'' (getprop data ''keyword_difficulty'') data)))"

definition api1_auditSite_request :: "utf16 \<Rightarrow> string \<Rightarrow> request" where
  "api1_auditSite_request apiKey url =
     \<lparr>endpoint = ''/audit'', api_key = Some apiKey, payload = [(''url'', url)]\<rparr>"

definition api1_auditSite :: "'r fetch_result \<Rightarrow> 'r outcome" where
  "api1_auditSite f =
     (case f of
        NetworkError m \<Rightarrow> Inl m
      | Response res \<Rightarrow> if \<not> ok res then Inl ''Audit failed'' else res_json res)"

definition api1_checkout_request :: "string \<Rightarrow> string \<Rightarrow> request" where
  "api1_checkout_request plan email =
     \<lparr>endpoint = ''/checkout'', api_key = None, payload = [(''plan'', plan), (''email'', email)]\<rparr>"

definition api1_checkout :: "'r fetch_result \<Rightarrow> 'r outcome" where
  "api1_checkout f =
     (case f of
        NetworkError m \<Rightarrow> Inl m
      | Response res \<Rightarrow> if \<not> ok res then Inl ''Checkout failed'' else res_json res)"

section \<open>API client with an optional key (api.ts, key last)\<close>

text \<open>
  \<open>if (apiKey) headers['X-API-Key'] = apiKey\<close>: the header is attached for a
  key that is given and not empty.
\<close>

definition optional_key :: "utf16 option \<Rightarrow> utf16 option" where
  "optional_key apiKey = (case apiKey of None \<Rightarrow> None | Some k \<Rightarrow> if k = [] then None else Some k)"

text \<open>
  The failure branch shared by the four operations:
  \<open>const error = await res.json(); throw new Error(error.detail || fallback)\<close>.
\<close>

definition throw_detail :: "'r http_response \<Rightarrow> string \<Rightarrow> 'a outcome" where
  "throw_detail res fb =
     (case json res of Inl m \<Rightarrow> Inl m | Inr error \<Rightarrow> Inl (or_else (detail error) fb))"

definition api2_analyzeDomain_request :: "string \<Rightarrow> utf16 option \<Rightarrow> request" where
  "api2_analyzeDomain_request domain apiKey =
     \<lparr>endpoint = ''/domain'', api_key = optional_key apiKey, payload = [(''domain'', domain)]\<rparr>"

definition api2_analyzeDomain :: "'r fetch_result \<Rightarrow> 'r outcome" where
  "api2_analyzeDomain f =
     (case f of
        NetworkError m \<Rightarrow> Inl m
      | Response res \<Rightarrow>
          if \<not> ok res then throw_detail res ''Analysis failed'' else res_json res)"

definition api2_researchKeyword_request :: "string \<Rightarrow> string \<Rightarrow> utf16 option \<Rightarrow> request" where
  "api2_researchKeyword_request keyword country apiKey =
     \<lparr>endpoint = ''/keywords'', api_key = optional_key apiKey,
      payload = [(''keyword'', keyword), (''country'', country)]\<rparr>"

definition api2_researchKeyword :: "'r fetch_result \<Rightarrow> 'r outcome" where
  "api2_researchKeyword f =
     (case f of
        NetworkError m \<Rightarrow> Inl m
      | Response res \<Rightarrow>
          if \<not> ok res then throw_detail res ''Research failed'' else res_json res)"

definition api2_auditSite_request :: "string \<Rightarrow> utf16 option \<Rightarrow> request" where
  "api2_auditSite_request url apiKey =
     \<lparr>endpoint = ''/audit'', api_key = optional_key apiKey, payload = [(''url'', url)]\<rparr>"

definition api2_auditSite :: "'r fetch_result \<Rightarrow> 'r outcome" where
  "api2_auditSite f =
     (case f of
        NetworkError m \<Rightarrow> Inl m
      | Response res \<Rightarrow>
          if \<not> ok res then throw_detail res ''Audit failed'' else res_json res)"

definition api2_checkout_request :: "string \<Rightarrow> string \<Rightarrow> request" where
  "api2_checkout_request plan email =
     \<lparr>endpoint = ''/checkout'', api_key = None, payload = [(''plan'', plan), (''email'', email)]\<rparr>"

definition api2_checkout :: "'r fetch_result \<Rightarrow> 'r outcome" where
  "api2_checkout f =
     (case f of
        NetworkError m \<Rightarrow> Inl m
      | Response res \<Rightarrow>
          if \<not> ok res then throw_detail res ''Checkout failed'' else res_json res)"

section \<open>Tool panels\<close>

text \<open>
  The state of a panel component: the text of its input field (the domain,
  keyword or URL), and the \<open>loading\<close>, \<open>data\<close> and \<open>error\<close> state cells.
\<close>

record 'r panel =
  input :: string
  loading :: bool
  data :: "'r option"
  error :: string

text \<open>The keyword panel also holds the selected country.\<close>

record 'r keyword_panel = "'r panel" +
  country :: string

definition initial_panel :: "'r panel" where
  "initial_panel = \<lparr>input = [], loading = False, data = None, error = []\<rparr>"

definition initial_keyword_panel :: "'r keyword_panel" where
  "initial_keyword_panel =
     \<lparr>input = [], loading = False, data = None, error = [], country = ''us''\<rparr>"

text \<open>
  The decoded result of \<open>/domain\<close> (interface \<open>DomainAnalysis\<close> of the client
  the domain panel calls).
\<close>

record DomainAnalysis =
  domain :: string
  seo_score :: real
  status_code :: real
  load_time_seconds :: real
  has_ssl :: bool
  title :: string
  title_length :: real
  meta_description :: string
  h1_count :: real
  has_canonical :: bool
  has_open_graph :: bool
  has_schema_markup :: bool
  word_count :: real
  issues :: "string list"
  recommendations :: "string list"

text \<open>
  An async handler runs in two parts. The first runs when the handler is
  called, up to the \<open>await\<close>: it returns the new state and the requests it
  has sent. The second (\<open>_settled\<close>) runs when the request settles, on the
  state of that moment: the \<open>try\<close> body after the \<open>await\<close>, the \<open>catch\<close>
  and the \<open>finally\<close>.
\<close>

definition analyze :: "('r, 'z) panel_scheme \<Rightarrow> ('r, 'z) panel_scheme \<times> request list" where
  "analyze p =
     (if input p = [] then (p, [])
      else (p\<lparr>loading := True, error := [], data := None\<rparr>,
            [api2_analyzeDomain_request (input p) None]))"

definition analyze_settled ::
  "'r fetch_result \<Rightarrow> ('r, 'z) panel_scheme \<Rightarrow> ('r, 'z) panel_scheme" where
  "analyze_settled f p =
     (case api2_analyzeDomain f of
        Inr res \<Rightarrow> p\<lparr>data := Some res\<rparr>
      | Inl message \<Rightarrow> p\<lparr>error := or_else (Some message) ''Analysis failed''\<rparr>)
     \<lparr>loading := False\<rparr>"

definition research ::
  "utf16 \<Rightarrow> ('r, 'z) panel_scheme \<Rightarrow> ('r, 'z) panel_scheme \<times> request list" where
  "research apiKey p =
     (if input p = [] then (p, [])
      else (p\<lparr>loading := True, error := [], data := None\<rparr>,
            [api1_researchKeywords_request apiKey (input p)]))"

definition research_settled ::
  "jsobject fetch_result \<Rightarrow> (jsobject, 'z) panel_scheme \<Rightarrow> (jsobject, 'z) panel_scheme" where
  "research_settled f p =
     (case api1_researchKeywords f of
        Inr res \<Rightarrow> p\<lparr>data := Some res\<rparr>
      | Inl message \<Rightarrow> p\<lparr>error := or_else (Some message) ''Research failed''\<rparr>)
     \<lparr>loading := False\<rparr>"

definition audit :: "('r, 'z) panel_scheme \<Rightarrow> ('r, 'z) panel_scheme \<times> request list" where
  "audit p =
     (if input p = [] then (p, [])
      else (p\<lparr>loading := True, error := [], data := None\<rparr>,
            [api2_auditSite_request (input p) None]))"

definition audit_settled ::
  "'r fetch_result \<Rightarrow> ('r, 'z) panel_scheme \<Rightarrow> ('r, 'z) panel_scheme" where
  "audit_settled f p =
     (case api2_auditSite f of
        Inr res \<Rightarrow> p\<lparr>data := Some res\<rparr>
      | Inl message \<Rightarrow> p\<lparr>error := or_else (Some message) ''Audit failed''\<rparr>)
     \<lparr>loading := False\<rparr>"

subsection \<open>What a panel renders\<close>

text \<open>The status colours of \<open>MetaItem\<close>.\<close>

datatype status = good | warn | bad

fun colors :: "status \<Rightarrow> string" where
  "colors good = ''text-green''"
| "colors warn = ''text-yellow''"
| "colors bad = ''text-red''"

text \<open>The colour class of the big SEO score.\<close>

definition score_class :: "real \<Rightarrow> string" where
  "score_class s =
     (if s \<ge> 70 then ''text-green'' else if s \<ge> 40 then ''text-yellow'' else ''text-red'')"

text \<open>
  The parts of the rendered panel that depend on its state: whether the
  button is disabled, the error box (rendered for a non-empty \<open>error\<close>), and
  for the domain panel the score block (rendered when \<open>data\<close> is set): the
  number shown and its colour class.
\<close>

definition button_disabled :: "('r, 'z) panel_scheme \<Rightarrow> bool" where
  "button_disabled p = loading p"

definition error_box :: "('r, 'z) panel_scheme \<Rightarrow> string option" where
  "error_box p = (if error p = [] then None else Some (error p))"

definition score_block :: "(DomainAnalysis, 'z) panel_scheme \<Rightarrow> (real \<times> string) option" where
  "score_block p =
     (case data p of None \<Rightarrow> None | Some d \<Rightarrow> Some (seo_score d, score_class (seo_score d)))"

subsection \<open>Events on a mounted panel\<close>

text \<open>
  The panel together with its requests in flight, each under the number it
  was sent as. \<open>Change v\<close> edits the input field, \<open>Click\<close> is a click on the
  button (a disabled button fires no click handler), \<open>KeyDown k\<close> a key
  pressed in the input field, and \<open>Settled i f\<close> the moment request \<open>i\<close>
  settles with \<open>f\<close>.
\<close>

datatype 'f event = Change string | Click | KeyDown string | Settled nat 'f

record 'p mounted =
  view :: 'p
  in_flight :: "(nat \<times> request) list"
  sent :: nat

definition mount :: "'p \<Rightarrow> 'p mounted" where
  "mount p = \<lparr>view = p, in_flight = [], sent = 0\<rparr>"

definition call ::
  "(('r, 'z) panel_scheme \<Rightarrow> ('r, 'z) panel_scheme \<times> request list) \<Rightarrow>
   ('r, 'z) panel_scheme mounted \<Rightarrow> ('r, 'z) panel_scheme mounted" where
  "call handler w =
     (case handler (view w) of
        (p, reqs) \<Rightarrow>
          w\<lparr>view := p,
            in_flight := in_flight w @ zip [sent w ..< sent w + length reqs] reqs,
            sent := sent w + length reqs\<rparr>)"

definition step ::
  "(('r, 'z) panel_scheme \<Rightarrow> ('r, 'z) panel_scheme \<times> request list) \<Rightarrow>
   ('f \<Rightarrow> ('r, 'z) panel_scheme \<Rightarrow> ('r, 'z) panel_scheme) \<Rightarrow>
   ('r, 'z) panel_scheme mounted \<Rightarrow> 'f event \<Rightarrow> ('r, 'z) panel_scheme mounted" where
  "step handler settled w ev =
     (case ev of
        Change v \<Rightarrow> w\<lparr>view := (view w)\<lparr>input := v\<rparr>\<rparr>
      | Click \<Rightarrow> if button_disabled (view w) then w else call handler w
      | KeyDown k \<Rightarrow> if k = ''Enter'' then call handler w else w
      | Settled i f \<Rightarrow>
          (case map_of (in_flight w) i of
             None \<Rightarrow> w
           | Some r \<Rightarrow>
               w\<lparr>view := settled f (view w),
                 in_flight := filter (\<lambda>(j, r). j \<noteq> i) (in_flight w)\<rparr>))"

definition DomainTool ::
  "(DomainAnalysis, 'z) panel_scheme mounted \<Rightarrow> DomainAnalysis fetch_result event \<Rightarrow>
   (DomainAnalysis, 'z) panel_scheme mounted" where
  "DomainTool = step analyze analyze_settled"

definition KeywordTool ::
  "utf16 \<Rightarrow> (jsobject, 'z) panel_scheme mounted \<Rightarrow> jsobject fetch_result event \<Rightarrow>
   (jsobject, 'z) panel_scheme mounted" where
  "KeywordTool apiKey = step (research apiKey) research_settled"

definition AuditTool ::
  "('r, 'z) panel_scheme mounted \<Rightarrow> 'r fetch_result event \<Rightarrow>
   ('r, 'z) panel_scheme mounted" where
  "AuditTool = step audit audit_settled"

text \<open>Running a sequence of events, oldest first.\<close>

definition run :: "('w \<Rightarrow> 'e \<Rightarrow> 'w) \<Rightarrow> 'w \<Rightarrow> 'e list \<Rightarrow> 'w" where
  "run f w evs = foldl f w evs"

section \<open>Pricing panels\<close>

text \<open>
  What a handler does to the page besides its own state: the value last
  assigned to \<open>window.location.href\<close> (\<open>None\<close> while nothing was assigned),
  the blocking alerts shown, and the lines written by \<open>console.error\<close>
  (the label and the message of the error logged).
\<close>

record page =
  href :: "jsval option"
  alerts :: "string list"
  console_errors :: "(string \<times> string) list"

definition blank_page :: page where
  "blank_page = \<lparr>href = None, alerts = [], console_errors = []\<rparr>"

subsection \<open>Plan cards that check out at once (Pricing.tsx)\<close>

text \<open>The \<open>loading\<close> cell holds the id of the plan being checked out, or null.\<close>

record pricing =
  loading_plan :: "string option"

definition handleCheckout :: "string \<Rightarrow> pricing \<Rightarrow> pricing \<times> request list" where
  "handleCheckout planId s =
     (s\<lparr>loading_plan := Some planId\<rparr>, [api2_checkout_request planId ''user@example.com''])"

definition handleCheckout_settled ::
  "jsobject outcome \<Rightarrow> pricing \<times> page \<Rightarrow> pricing \<times> page" where
  "handleCheckout_settled out sp =
     (case sp of
        (s, pg) \<Rightarrow>
          (s\<lparr>loading_plan := None\<rparr>,
           (case out of
              Inr res \<Rightarrow>
                if truthy (getprop res ''checkout_url'')
                then pg\<lparr>href := Some (getprop res ''checkout_url'')\<rparr>
                else pg
            | Inl err \<Rightarrow> pg\<lparr>console_errors := console_errors pg @ [(''Checkout failed:'', err)]\<rparr>)))"

subsection \<open>Plan cards with a confirmation dialog\<close>

record pricing_modal =
  selectedPlan :: string
  isModalOpen :: bool
  email :: string
  loading_modal :: bool

definition initial_pricing_modal :: pricing_modal where
  "initial_pricing_modal =
     \<lparr>selectedPlan = [], isModalOpen = False, email = [], loading_modal = False\<rparr>"

definition openModal :: "string \<Rightarrow> pricing_modal \<Rightarrow> pricing_modal" where
  "openModal planName s = s\<lparr>selectedPlan := planName, isModalOpen := True\<rparr>"

text \<open>
  \<open>toLowerCase\<close> on the letters A to Z. The selected plan is always a name of
  the plan table (Starter, Professional, Agency) or the empty string.
\<close>

definition toLowerCase :: "string \<Rightarrow> string" where
  "toLowerCase s =
     map (\<lambda>c. if 65 \<le> (of_char c :: nat) \<and> (of_char c :: nat) \<le> 90
              then char_of (of_char c + 32 :: nat) else c) s"

text \<open>\<open>email.includes('@')\<close>.\<close>

definition includes_at :: "string \<Rightarrow> bool" where
  "includes_at s \<longleftrightarrow> CHR ''@'' \<in> set s"

definition handleCheckout_modal ::
  "pricing_modal \<times> page \<Rightarrow> (pricing_modal \<times> page) \<times> request list" where
  "handleCheckout_modal sp =
     (case sp of
        (s, pg) \<Rightarrow>
          if email s = [] \<or> \<not> includes_at (email s)
          then ((s, pg\<lparr>alerts := alerts pg @ [''Please enter a valid email'']\<rparr>), [])
          else ((s\<lparr>loading_modal := True\<rparr>, pg),
                [api2_checkout_request (toLowerCase (selectedPlan s)) (email s)]))"

definition handleCheckout_modal_settled ::
  "jsobject outcome \<Rightarrow> pricing_modal \<times> page \<Rightarrow> pricing_modal \<times> page" where
  "handleCheckout_modal_settled out sp =
     (case sp of
        (s, pg) \<Rightarrow>
          (s\<lparr>loading_modal := False\<rparr>,
           (case out of
              Inr res \<Rightarrow>
                if truthy (getprop res ''checkout_url'')
                then pg\<lparr>href := Some (getprop res ''checkout_url'')\<rparr>
                else pg
            | Inl message \<Rightarrow> pg\<lparr>alerts := alerts pg @ [''Checkout failed: '' @ message]\<rparr>)))"

subsection \<open>The bundled checkout route\<close>

text \<open>
  The body the route \<open>POST\<close> answers with when the payment session was
  created: \<open>{ sessionId: session.id, url: session.url }\<close>.
\<close>

definition POST_body :: "string \<Rightarrow> jsval \<Rightarrow> jsobject" where
  "POST_body session_id session_url = [(''sessionId'', JStr session_id), (''url'', session_url)]"

section \<open>Access gate\<close>

text \<open>
  White space as \<open>String.prototype.trim\<close> strips it: the WhiteSpace and
  LineTerminator code points, all of one code unit.
\<close>

definition isWhiteSpace :: "16 word \<Rightarrow> bool" where
  "isWhiteSpace c \<longleftrightarrow>
     c \<in> {0x0009, 0x000A, 0x000B, 0x000C, 0x000D, 0x0020, 0x00A0, 0x1680,
          0x2028, 0x2029, 0x202F, 0x205F, 0x3000, 0xFEFF}
     \<or> (0x2000 \<le> c \<and> c \<le> 0x200A)"

definition trim :: "utf16 \<Rightarrow> utf16" where
  "trim s = rev (dropWhile isWhiteSpace (rev (dropWhile isWhiteSpace s)))"

datatype tab = domain_tab | keywords_tab | audit_tab

record home =
  activeTab :: tab
  apiKey :: utf16
  isAuthenticated :: bool

text \<open>Persistent browser storage: the value under each key.\<close>

type_synonym storage = "string \<rightharpoonup> utf16"

definition initial_home :: home where
  "initial_home = \<lparr>activeTab = domain_tab, apiKey = [], isAuthenticated = False\<rparr>"

text \<open>The effect run once after the first render.\<close>

definition on_mount :: "home \<times> storage \<Rightarrow> home \<times> storage" where
  "on_mount hs =
     (case hs of
        (h, ls) \<Rightarrow>
          (case ls ''seo_api_key'' of
             None \<Rightarrow> (h, ls)
           | Some storedKey \<Rightarrow>
               if storedKey \<noteq> [] then (h\<lparr>apiKey := storedKey, isAuthenticated := True\<rparr>, ls)
               else (h, ls)))"

text \<open>
  Submitting the login form. The third component lists the requests sent.
\<close>

definition handleLogin :: "home \<times> storage \<Rightarrow> (home \<times> storage) \<times> request list" where
  "handleLogin hs =
     (case hs of
        (h, ls) \<Rightarrow>
          if trim (apiKey h) \<noteq> []
          then ((h\<lparr>isAuthenticated := True\<rparr>, ls(''seo_api_key'' \<mapsto> apiKey h)), [])
          else ((h, ls), []))"

definition logout :: "home \<times> storage \<Rightarrow> home \<times> storage" where
  "logout hs =
     (case hs of
        (h, ls) \<Rightarrow> (h\<lparr>isAuthenticated := False, apiKey := []\<rparr>, ls(''seo_api_key'' := None)))"

section \<open>Error messages of the client operations\<close>

lemma unauthorized_not_ok: "status res = 401 \<Longrightarrow> \<not> ok res"
  by (simp add: ok_def)

lemma api1_analyzeDomain_unauthorized:
  "status res = 401 \<Longrightarrow> api1_analyzeDomain (Response res) = Inl ''Invalid API Key''"
  by (simp add: api1_analyzeDomain_def unauthorized_not_ok)

lemma api1_researchKeywords_unauthorized:
  "status res = 401 \<Longrightarrow> api1_researchKeywords (Response res) = Inl ''Research failed''"
  by (simp add: api1_researchKeywords_def unauthorized_not_ok)

lemma api1_auditSite_unauthorized:
  "status res = 401 \<Longrightarrow> api1_auditSite (Response res) = Inl ''Audit failed''"
  by (simp add: api1_auditSite_def unauthorized_not_ok)

lemma api2_unauthorized:
  assumes "status res = 401" and "json res = Inr b"
  shows "api2_analyzeDomain (Response res) = Inl (or_else (detail b) ''Analysis failed'')"
    and "api2_researchKeyword (Response res) = Inl (or_else (detail b) ''Research failed'')"
    and "api2_auditSite (Response res) = Inl (or_else (detail b) ''Audit failed'')"
  using assms
  by (simp_all add: api2_analyzeDomain_def api2_researchKeyword_def api2_auditSite_def
      throw_detail_def unauthorized_not_ok)

text \<open>
  Claim C1: a 401 answer to an analyze, research or audit call is displayed
  as the credential-invalid message, never as the generic fallback. The
  keyword panel breaks it: with the key \<open>k1\<close> and the keyword \<open>seo\<close>
  submitted, a 401 answer is displayed as \<open>Research failed\<close>. So does
  \<open>auditSite\<close> of the same client (\<open>Audit failed\<close>), while its sibling
  \<open>analyzeDomain\<close> answers \<open>Invalid API Key\<close>.
\<close>

theorem unauthorized_research_shows_fallback:
  "error_box (view (run (KeywordTool [0x6B, 0x31])
       (mount initial_keyword_panel)
       [Change ''seo'', Click,
        Settled 0 (Response \<lparr>status = 401, json = Inr \<lparr>detail = None, result = []\<rparr>\<rparr>)]))
     = Some ''Research failed''
   \<and> api1_auditSite (Response \<lparr>status = 401, json = Inr \<lparr>detail = None, result = ([] :: jsobject)\<rparr>\<rparr>)
     = Inl ''Audit failed''
   \<and> api1_analyzeDomain (Response \<lparr>status = 401, json = Inr \<lparr>detail = None, result = ([] :: jsobject)\<rparr>\<rparr>)
     = Inl ''Invalid API Key''"
  by (simp add: run_def KeywordTool_def step_def mount_def initial_keyword_panel_def call_def
      research_def research_settled_def api1_researchKeywords_def api1_auditSite_def
      api1_analyzeDomain_def ok_def button_disabled_def error_box_def
      api1_researchKeywords_request_def)

section \<open>Submitting on a panel\<close>

lemma call_single:
  "handler (view w) = (p, [r]) \<Longrightarrow>
   call handler w = w\<lparr>view := p, in_flight := in_flight w @ [(sent w, r)], sent := Suc (sent w)\<rparr>"
  by (simp add: call_def upt_rec)

lemma call_none: "handler (view w) = (view w, []) \<Longrightarrow> call handler w = w"
  by (simp add: call_def)

lemma analyze_sends:
  "input p \<noteq> [] \<Longrightarrow>
   analyze p = (p\<lparr>loading := True, error := [], data := None\<rparr>,
                [api2_analyzeDomain_request (input p) None])"
  by (simp add: analyze_def)

lemma research_sends:
  "input p \<noteq> [] \<Longrightarrow>
   research k p = (p\<lparr>loading := True, error := [], data := None\<rparr>,
                   [api1_researchKeywords_request k (input p)])"
  by (simp add: research_def)

lemma audit_sends:
  "input p \<noteq> [] \<Longrightarrow>
   audit p = (p\<lparr>loading := True, error := [], data := None\<rparr>,
              [api2_auditSite_request (input p) None])"
  by (simp add: audit_def)

lemma click_while_loading: "loading (view w) \<Longrightarrow> step handler settled w Click = w"
  by (simp add: step_def button_disabled_def)

lemma enter_while_loading:
  assumes "handler (view w) = (p, [r])"
  shows "in_flight (step handler settled w (KeyDown ''Enter'')) = in_flight w @ [(sent w, r)]"
  using call_single [of handler w p r] assms by (simp add: step_def)

text \<open>
  Claim C2: while a panel is loading, neither a click on the button nor the
  Enter key in the input field starts a second request. The Enter key breaks
  it: on the domain panel with \<open>example.com\<close> typed and submitted, the panel
  is loading with one request in flight; a further click leaves it at one,
  but the Enter key sends a second request.
\<close>

theorem enter_while_submitting_sends_second_request:
  "loading (view (run DomainTool (mount initial_panel) [Change ''example.com'', Click]))
   \<and> length (in_flight (run DomainTool (mount initial_panel) [Change ''example.com'', Click])) = 1
   \<and> length (in_flight (run DomainTool (mount initial_panel)
        [Change ''example.com'', Click, Click])) = 1
   \<and> length (in_flight (run DomainTool (mount initial_panel)
        [Change ''example.com'', Click, KeyDown ''Enter''])) = 2"
  by (simp add: run_def DomainTool_def step_def mount_def initial_panel_def call_def
      analyze_def button_disabled_def)

lemma step_empty_noop:
  assumes "handler (view w) = (view w, [])" and "ev = Click \<or> ev = KeyDown ''Enter''"
  shows "step handler settled w ev = w"
  using assms by (auto simp: step_def call_none)

text \<open>
  Claim C4: on every panel, a click on the button or the Enter key while the
  input is empty sends no request and leaves the whole panel state, and with
  it the requests in flight, unchanged.
\<close>

theorem empty_input_submit_noop:
  "(input (view wd) = [] \<and> (ed = Click \<or> ed = KeyDown ''Enter'') \<longrightarrow>
      analyze (view wd) = (view wd, []) \<and> DomainTool wd ed = wd)
   \<and> (input (view wk) = [] \<and> (ek = Click \<or> ek = KeyDown ''Enter'') \<longrightarrow>
      research k (view wk) = (view wk, []) \<and> KeywordTool k wk ek = wk)
   \<and> (input (view wa) = [] \<and> (ea = Click \<or> ea = KeyDown ''Enter'') \<longrightarrow>
      audit (view wa) = (view wa, []) \<and> AuditTool wa ea = wa)"
  by (simp add: DomainTool_def KeywordTool_def AuditTool_def step_empty_noop
      analyze_def research_def audit_def)

theorem empty_input_submit_noop_witness:
  "DomainTool (mount (initial_panel :: DomainAnalysis panel)) Click = mount initial_panel
   \<and> KeywordTool [0x6B, 0x31] (mount initial_keyword_panel) (KeyDown ''Enter'')
       = mount initial_keyword_panel
   \<and> AuditTool (mount (initial_panel :: jsobject panel))
         (KeyDown ''Enter'' :: jsobject fetch_result event)
       = mount initial_panel"
  using empty_input_submit_noop [where wd = "mount (initial_panel :: DomainAnalysis panel)"
      and ed = Click and wk = "mount (initial_keyword_panel :: jsobject keyword_panel)"
      and ek = "KeyDown ''Enter''" and k = "[0x6B, 0x31]"
      and wa = "mount (initial_panel :: jsobject panel)" and ea = "KeyDown ''Enter''"]
  by (simp add: mount_def initial_panel_def initial_keyword_panel_def)

section \<open>Responses that settle out of order\<close>

text \<open>
  Claim C3: when two submissions overlap on a panel and the first settles
  after the second, the panel ends up showing the result of the second, most
  recent request. The domain panel breaks it: \<open>a.example\<close> is submitted by
  the button, then \<open>b.example\<close> by the Enter key while the first request is
  still in flight (two requests in flight); the answer for \<open>b.example\<close>
  settles first, the answer for \<open>a.example\<close> last, and the panel ends up
  with \<open>b.example\<close> in its input field and the result for \<open>a.example\<close>
  on display.
\<close>

theorem stale_response_overwrites_newer:
  "length (in_flight (run DomainTool (mount initial_panel)
       [Change ''a.example'', Click, Change ''b.example'', KeyDown ''Enter''])) = 2
   \<and> run DomainTool (mount initial_panel)
       [Change ''a.example'', Click, Change ''b.example'', KeyDown ''Enter'',
        Settled 1 (Response \<lparr>status = 200, json = Inr \<lparr>detail = None, result =
          \<lparr>domain = ''b.example'', seo_score = 40, status_code = 200,
           load_time_seconds = 2, has_ssl = False, title = ''B'', title_length = 1,
           meta_description = ''b'', h1_count = 1, has_canonical = False,
           has_open_graph = False, has_schema_markup = False, word_count = 120,
           issues = [''No HTTPS''], recommendations = [''Enable HTTPS'']\<rparr>\<rparr>\<rparr>),
        Settled 0 (Response \<lparr>status = 200, json = Inr \<lparr>detail = None, result =
          \<lparr>domain = ''a.example'', seo_score = 85, status_code = 200,
           load_time_seconds = 1, has_ssl = True, title = ''A'', title_length = 1,
           meta_description = ''a'', h1_count = 1, has_canonical = True,
           has_open_graph = True, has_schema_markup = True, word_count = 300,
           issues = [], recommendations = []\<rparr>\<rparr>\<rparr>)]
     = \<lparr>view = \<lparr>input = ''b.example'', loading = False,
          data = Some \<lparr>domain = ''a.example'', seo_score = 85, status_code = 200,
             load_time_seconds = 1, has_ssl = True, title = ''A'', title_length = 1,
             meta_description = ''a'', h1_count = 1, has_canonical = True,
             has_open_graph = True, has_schema_markup = True, word_count = 300,
             issues = [], recommendations = []\<rparr>,
          error = []\<rparr>,
        in_flight = [], sent = 2\<rparr>"
  by (simp add: run_def DomainTool_def step_def mount_def initial_panel_def call_def
      analyze_def analyze_settled_def api2_analyzeDomain_def res_json_def ok_def
      button_disabled_def api2_analyzeDomain_request_def optional_key_def)

section \<open>What the panels show on success\<close>

lemma score_class_tiers:
  "(score_class s = ''text-green'') = (70 \<le> s)"
  "(score_class s = ''text-yellow'') = (40 \<le> s \<and> s < 70)"
  "(score_class s = ''text-red'') = (s < 40)"
  by (auto simp: score_class_def)

text \<open>
  Claim C6: after a successful \<open>/domain\<close> response whose \<open>seo_score\<close> is \<open>s\<close>,
  the domain panel shows exactly \<open>s\<close>, in the colour of the tier \<open>good\<close>
  iff \<open>s \<ge> 70\<close>, of \<open>warn\<close> iff \<open>40 \<le> s < 70\<close>, and of \<open>bad\<close> iff
  \<open>s < 40\<close>.
\<close>

theorem domain_score_displayed:
  assumes "ok res" and "json res = Inr b" and "seo_score (result b) = s"
  shows "\<exists>c. score_block (analyze_settled (Response res) p) = Some (s, c)
           \<and> (c = colors good) = (70 \<le> s)
           \<and> (c = colors warn) = (40 \<le> s \<and> s < 70)
           \<and> (c = colors bad) = (s < 40)"
  using assms
  by (simp add: score_block_def analyze_settled_def api2_analyzeDomain_def res_json_def
      score_class_tiers)

theorem domain_score_displayed_witness:
  "score_block (analyze_settled
       (Response \<lparr>status = 200, json = Inr \<lparr>detail = None, result =
          \<lparr>domain = ''a.example'', seo_score = 85, status_code = 200,
           load_time_seconds = 1, has_ssl = True, title = ''A'', title_length = 1,
           meta_description = [], h1_count = 1, has_canonical = True,
           has_open_graph = False, has_schema_markup = False, word_count = 300,
           issues = [], recommendations = []\<rparr>\<rparr>\<rparr>)
       (initial_panel\<lparr>input := ''a.example'', loading := True\<rparr>))
     = Some (85, colors good)"
  using domain_score_displayed [where
      res = "\<lparr>status = 200, json = Inr \<lparr>detail = None, result =
          \<lparr>domain = ''a.example'', seo_score = 85, status_code = 200,
           load_time_seconds = 1, has_ssl = True, title = ''A'', title_length = 1,
           meta_description = [], h1_count = 1, has_canonical = True,
           has_open_graph = False, has_schema_markup = False, word_count = 300,
           issues = [], recommendations = []\<rparr>\<rparr>\<rparr>"
      and b = "\<lparr>detail = None, result =
          \<lparr>domain = ''a.example'', seo_score = 85, status_code = 200,
           load_time_seconds = 1, has_ssl = True, title = ''A'', title_length = 1,
           meta_description = [], h1_count = 1, has_canonical = True,
           has_open_graph = False, has_schema_markup = False, word_count = 300,
           issues = [], recommendations = []\<rparr>\<rparr>"
      and s = 85 and p = "initial_panel\<lparr>input := ''a.example'', loading := True\<rparr>"]
  by (auto simp: ok_def)

text \<open>
  Claim C7: for a successful \<open>/keywords\<close> response whose
  \<open>keyword_difficulty\<close> is \<open>d\<close>, the object \<open>researchKeywords\<close> returns has
  \<open>difficulty\<close> equal to \<open>d\<close>, and every other property as in the response.
\<close>

theorem keyword_difficulty_alias:
  assumes "ok res" and "json res = Inr b" and "getprop (result b) ''keyword_difficulty'' = d"
  shows "\<exists>r. api1_researchKeywords (Response res) = Inr r
           \<and> getprop r ''difficulty'' = d
           \<and> (\<forall>k. k \<noteq> ''difficulty'' \<longrightarrow> getprop r k = getprop (result b) k)"
  using assms
  by (simp add: api1_researchKeywords_def res_json_def getprop_def update_conv')

theorem keyword_difficulty_alias_witness:
  "\<exists>r. api1_researchKeywords
         (Response \<lparr>status = 200, json = Inr \<lparr>detail = None,
            result = [(''keyword'', JStr ''seo''), (''keyword_difficulty'', JNum 42)]\<rparr>\<rparr>) = Inr r
       \<and> getprop r ''difficulty'' = JNum 42
       \<and> getprop r ''keyword_difficulty'' = JNum 42
       \<and> getprop r ''keyword'' = JStr ''seo''"
  using keyword_difficulty_alias [where
      res = "\<lparr>status = 200, json = Inr \<lparr>detail = None,
            result = [(''keyword'', JStr ''seo''), (''keyword_difficulty'', JNum 42)]\<rparr>\<rparr>"
      and b = "\<lparr>detail = None,
            result = [(''keyword'', JStr ''seo''), (''keyword_difficulty'', JNum 42)]\<rparr>"
      and d = "JNum 42"]
  by (auto simp: ok_def getprop_def)

section \<open>Checkout\<close>

lemma checkout_returns_body:
  "ok res \<Longrightarrow> json res = Inr b \<Longrightarrow>
   api1_checkout (Response res) = Inr (result b) \<and> api2_checkout (Response res) = Inr (result b)"
  by (simp add: api1_checkout_def api2_checkout_def res_json_def)

text \<open>
  Claim C8 as stated: for every successful checkout response with a field
  \<open>checkout_url = U\<close>, the pricing panel sets the navigation target to
  \<open>U\<close>. It fails for the empty string: the handler tests the field for
  truthiness first, and nothing is assigned to \<open>window.location.href\<close>.
\<close>

theorem empty_checkout_url_not_followed:
  "href (snd (handleCheckout_settled
       (api2_checkout (Response \<lparr>status = 200,
          json = Inr \<lparr>detail = None, result = [(''checkout_url'', JStr [])]\<rparr>\<rparr>))
       (\<lparr>loading_plan = Some ''starter''\<rparr>, blank_page))) = None
   \<and> href (snd (handleCheckout_settled
       (api2_checkout (Response \<lparr>status = 200,
          json = Inr \<lparr>detail = None, result = [(''checkout_url'', JStr [])]\<rparr>\<rparr>))
       (\<lparr>loading_plan = Some ''starter''\<rparr>, blank_page))) \<noteq> Some (JStr [])"
  by (simp add: handleCheckout_settled_def api2_checkout_def res_json_def ok_def getprop_def
      blank_page_def)

text \<open>
  Claim C8, amended: for every successful checkout response with a field
  \<open>checkout_url = U\<close> where \<open>U\<close> is truthy (for a string: not empty), the
  value assigned to \<open>window.location.href\<close> is exactly \<open>U\<close>, in both
  pricing panels and with either client.
\<close>

theorem checkout_url_followed:
  assumes "ok res" and "json res = Inr b"
    and "getprop (result b) ''checkout_url'' = U" and "truthy U"
  shows "href (snd (handleCheckout_settled (api1_checkout (Response res)) (s, pg))) = Some U
       \<and> href (snd (handleCheckout_settled (api2_checkout (Response res)) (s, pg))) = Some U
       \<and> href (snd (handleCheckout_modal_settled (api1_checkout (Response res)) (m, pg))) = Some U
       \<and> href (snd (handleCheckout_modal_settled (api2_checkout (Response res)) (m, pg))) = Some U"
  using assms
  by (simp add: checkout_returns_body handleCheckout_settled_def handleCheckout_modal_settled_def)

theorem checkout_url_followed_witness:
  "href (snd (handleCheckout_settled
       (api2_checkout (Response \<lparr>status = 200,
          json = Inr \<lparr>detail = None,
                      result = [(''checkout_url'', JStr ''https://pay.example/sess_123'')]\<rparr>\<rparr>))
       (\<lparr>loading_plan = Some ''starter''\<rparr>, blank_page)))
     = Some (JStr ''https://pay.example/sess_123'')"
  using checkout_url_followed [of "\<lparr>status = 200,
          json = Inr \<lparr>detail = None,
                      result = [(''checkout_url'', JStr ''https://pay.example/sess_123'')]\<rparr>\<rparr>"
      "\<lparr>detail = None, result = [(''checkout_url'', JStr ''https://pay.example/sess_123'')]\<rparr>"
      "JStr ''https://pay.example/sess_123''" "\<lparr>loading_plan = Some ''starter''\<rparr>" blank_page]
  by (simp add: ok_def getprop_def)

text \<open>
  Claim C9: in the pricing panel with the confirmation dialog, the checkout
  request is sent iff the email contains the character \<open>@\<close>; when it does
  not, no request is sent, the alert \<open>Please enter a valid email\<close> is
  shown, and the state of the panel is unchanged.
\<close>

theorem modal_checkout_iff_at:
  "(snd (handleCheckout_modal (s, pg)) \<noteq> []) = (CHR ''@'' \<in> set (email s))
   \<and> (CHR ''@'' \<in> set (email s) \<longrightarrow>
        handleCheckout_modal (s, pg) =
          ((s\<lparr>loading_modal := True\<rparr>, pg),
           [api2_checkout_request (toLowerCase (selectedPlan s)) (email s)]))
   \<and> (CHR ''@'' \<notin> set (email s) \<longrightarrow>
        handleCheckout_modal (s, pg) =
          ((s, pg\<lparr>alerts := alerts pg @ [''Please enter a valid email'']\<rparr>), []))"
  by (auto simp: handleCheckout_modal_def includes_at_def)

lemma toLowerCase_Starter: "toLowerCase ''Starter'' = ''starter''"
  by code_simp

theorem modal_checkout_iff_at_witness:
  "handleCheckout_modal
       (\<lparr>selectedPlan = ''Starter'', isModalOpen = True, email = ''a@b.co'', loading_modal = False\<rparr>,
        blank_page)
     = ((\<lparr>selectedPlan = ''Starter'', isModalOpen = True, email = ''a@b.co'', loading_modal = True\<rparr>,
         blank_page),
        [\<lparr>endpoint = ''/checkout'', api_key = None,
          payload = [(''plan'', ''starter''), (''email'', ''a@b.co'')]\<rparr>])
   \<and> handleCheckout_modal
       (\<lparr>selectedPlan = ''Starter'', isModalOpen = True, email = ''ab.co'', loading_modal = False\<rparr>,
        blank_page)
     = ((\<lparr>selectedPlan = ''Starter'', isModalOpen = True, email = ''ab.co'', loading_modal = False\<rparr>,
         \<lparr>href = None, alerts = [''Please enter a valid email''], console_errors = []\<rparr>),
        [])"
  using modal_checkout_iff_at [of
      "\<lparr>selectedPlan = ''Starter'', isModalOpen = True, email = ''a@b.co'', loading_modal = False\<rparr>"
      blank_page]
    modal_checkout_iff_at [of
      "\<lparr>selectedPlan = ''Starter'', isModalOpen = True, email = ''ab.co'', loading_modal = False\<rparr>"
      blank_page]
  by (simp add: blank_page_def api2_checkout_request_def toLowerCase_Starter)

text \<open>
  Claim C10: when the checkout request succeeds and the decoded body has no
  truthy \<open>checkout_url\<close> (as the body of the bundled route, which has
  \<open>sessionId\<close> and \<open>url\<close>), the handler assigns no navigation target,
  shows no alert and logs nothing: it only resets the loading cell.
\<close>

theorem checkout_without_url_is_silent:
  assumes "ok res" and "json res = Inr b"
    and "\<not> truthy (getprop (result b) ''checkout_url'')"
  shows "handleCheckout_settled (api1_checkout (Response res)) (s, pg) = (s\<lparr>loading_plan := None\<rparr>, pg)
       \<and> handleCheckout_settled (api2_checkout (Response res)) (s, pg) = (s\<lparr>loading_plan := None\<rparr>, pg)
       \<and> handleCheckout_modal_settled (api1_checkout (Response res)) (m, pg)
           = (m\<lparr>loading_modal := False\<rparr>, pg)
       \<and> handleCheckout_modal_settled (api2_checkout (Response res)) (m, pg)
           = (m\<lparr>loading_modal := False\<rparr>, pg)"
  using assms
  by (simp add: checkout_returns_body handleCheckout_settled_def handleCheckout_modal_settled_def)

theorem checkout_without_url_is_silent_witness:
  "handleCheckout_settled
       (api2_checkout (Response \<lparr>status = 200,
          json = Inr \<lparr>detail = None,
                      result = POST_body ''cs_test_1'' (JStr ''https://checkout.example/c/1'')\<rparr>\<rparr>))
       (\<lparr>loading_plan = Some ''starter''\<rparr>, blank_page)
     = (\<lparr>loading_plan = None\<rparr>, blank_page)"
  using checkout_without_url_is_silent [of "\<lparr>status = 200,
          json = Inr \<lparr>detail = None,
                      result = POST_body ''cs_test_1'' (JStr ''https://checkout.example/c/1'')\<rparr>\<rparr>"
      "\<lparr>detail = None, result = POST_body ''cs_test_1'' (JStr ''https://checkout.example/c/1'')\<rparr>"
      "\<lparr>loading_plan = Some ''starter''\<rparr>" blank_page]
  by (simp add: ok_def getprop_def POST_body_def)

section \<open>Logging in\<close>

lemma all_dropWhile: "(\<forall>x\<in>set (dropWhile P xs). P x) = (\<forall>x\<in>set xs. P x)"
  by (induction xs) auto

lemma trim_empty_iff: "(trim s = []) = (\<forall>c\<in>set s. isWhiteSpace c)"
  by (simp add: trim_def all_dropWhile)

text \<open>
  Claim C5 as stated: the login form authenticates and stores the credential
  \<open>s\<close> iff \<open>s\<close> is not empty. It fails for the credential made of one
  space: it is not empty, yet the session stays unauthenticated and nothing
  is stored.
\<close>

theorem blank_key_not_accepted:
  "[0x20] \<noteq> ([] :: utf16)
   \<and> \<not> isAuthenticated (fst (fst (handleLogin (initial_home\<lparr>apiKey := [0x20]\<rparr>, Map.empty))))
   \<and> snd (fst (handleLogin (initial_home\<lparr>apiKey := [0x20]\<rparr>, Map.empty))) ''seo_api_key'' = None"
  by (simp add: handleLogin_def initial_home_def trim_def isWhiteSpace_def)

text \<open>
  Claim C5, amended: submitting the login form with the credential \<open>s\<close>
  authenticates the session and stores \<open>s\<close> under \<open>seo_api_key\<close> iff
  \<open>s\<close> has a character that is not white space (\<open>s.trim()\<close> is not
  empty); for a credential of white space only, the session and the storage
  stay as they were. Either way the handler sends no request, so nothing is
  verified by a server.
\<close>

theorem login_accepts_nonblank_key:
  assumes "\<not> isAuthenticated h"
  shows "((\<exists>c\<in>set s. \<not> isWhiteSpace c) \<longrightarrow>
            handleLogin (h\<lparr>apiKey := s\<rparr>, ls)
              = ((h\<lparr>apiKey := s, isAuthenticated := True\<rparr>, ls(''seo_api_key'' \<mapsto> s)), []))
       \<and> ((\<forall>c\<in>set s. isWhiteSpace c) \<longrightarrow>
            handleLogin (h\<lparr>apiKey := s\<rparr>, ls) = ((h\<lparr>apiKey := s\<rparr>, ls), []))
       \<and> isAuthenticated (fst (fst (handleLogin (h\<lparr>apiKey := s\<rparr>, ls))))
           = (\<exists>c\<in>set s. \<not> isWhiteSpace c)"
  using assms by (auto simp: handleLogin_def trim_empty_iff)

theorem login_accepts_nonblank_key_witness:
  "handleLogin (initial_home\<lparr>apiKey := [0x73, 0x65, 0x6F, 0x5F, 0x31]\<rparr>, Map.empty)
     = ((\<lparr>activeTab = domain_tab, apiKey = [0x73, 0x65, 0x6F, 0x5F, 0x31], isAuthenticated = True\<rparr>,
         [''seo_api_key'' \<mapsto> [0x73, 0x65, 0x6F, 0x5F, 0x31]]), [])
   \<and> handleLogin (initial_home\<lparr>apiKey := [0x20, 0x09]\<rparr>, Map.empty)
     = ((\<lparr>activeTab = domain_tab, apiKey = [0x20, 0x09], isAuthenticated = False\<rparr>, Map.empty), [])"
  using login_accepts_nonblank_key [of initial_home "[0x73, 0x65, 0x6F, 0x5F, 0x31]" Map.empty]
    login_accepts_nonblank_key [of initial_home "[0x20, 0x09]" Map.empty]
  by (simp add: initial_home_def isWhiteSpace_def)

end
